theory Spec2Isabelle
  imports Complex_Main
begin

section \<open>The application-state store of \<^verbatim>\<open>src/store/appStore.ts\<close>\<close>

text \<open>
  The file holds one persisted state container: a migration helper \<^verbatim>\<open>getLocalItem\<close>
  that reads the old per-key entries of \<^verbatim>\<open>localStorage\<close>, the state record with its
  setters, the compound action \<^verbatim>\<open>resetSettings\<close>, and the projection \<^verbatim>\<open>partialize\<close>
  that selects what is written back under the unified key.
\<close>

subsection \<open>Run-time values\<close>

text \<open>
  TypeScript's annotations are erased at run time. What \<^verbatim>\<open>getLocalItem<T>\<close> returns is
  the default, the result of \<^verbatim>\<open>JSON.parse\<close>, or the raw stored string under the cast
  \<^verbatim>\<open>item as unknown as T\<close>; the fields that are read from storage therefore hold
  JavaScript values of any JSON shape. Numbers are only stored and compared, never
  computed with; the two numerals of the source, \<^verbatim>\<open>9\<close> and \<^verbatim>\<open>3.5\<close>, are exact.
\<close>

datatype jsval =
    JNull
  | JBool bool
  | JNum real
  | JStr string
  | JArr "jsval list"
  | JObj "(string \<times> jsval) list"

type_synonym Language = jsval
type_synonym ProviderOption = jsval
type_synonym ModelOption = jsval
type_synonym AspectRatioOption = jsval
type_synonym GeneratedImage = jsval
type_synonym CloudImage = jsval
type_synonym AppView = string

text \<open>An exception that a JavaScript expression raises instead of returning.\<close>

datatype exn = SyntaxError | TypeError | SecurityError

text \<open>
  The storage is a key-value store of strings: \<^verbatim>\<open>localStorage.getItem\<close> answers a
  string or \<^verbatim>\<open>null\<close>, and is taken to answer once the store has been reached.
\<close>

type_synonym Storage = "string \<rightharpoonup> string"

text \<open>
  The global \<^verbatim>\<open>localStorage\<close> as an environment offers it. It may be missing, so
  that \<^verbatim>\<open>typeof localStorage\<close> is \<^verbatim>\<open>'undefined'\<close>. It may be blocked: the global is
  an accessor of the window, and where the browser denies storage to the page reading
  it raises a SecurityError; \<^verbatim>\<open>typeof\<close> forgives an unresolvable name, not an
  accessor that raises. Or it is present and gives the store.
\<close>

datatype Medium = Missing | Blocked | Present Storage

text \<open>\<^verbatim>\<open>String.prototype.startsWith\<close> with a search string and no position.\<close>

definition startsWith :: "string \<Rightarrow> string \<Rightarrow> bool" where
  "startsWith s p = (take (length p) s = p)"

text \<open>
  \<^verbatim>\<open>String.prototype.toLowerCase\<close> on the ASCII range, where \<^verbatim>\<open>navigator.language\<close>
  (a BCP 47 tag) lives: the letters A to Z move to a to z, every other character stays.
\<close>

definition toLowerCase_char :: "char \<Rightarrow> char" where
  "toLowerCase_char c =
     (let n = (of_char c :: nat) in if 65 \<le> n \<and> n \<le> 90 then char_of (n + 32) else c)"

definition toLowerCase :: "string \<Rightarrow> string" where
  "toLowerCase s = map toLowerCase_char s"

subsection \<open>The migration helper\<close>

text \<open>
  \<^verbatim>\<open>JSON.parse\<close> belongs to the platform and is a parameter of the model: it answers
  the parsed value or raises. The body of the \<^verbatim>\<open>try\<close> block comes first, with the
  exception of \<^verbatim>\<open>JSON.parse\<close> as a value; \<^verbatim>\<open>getLocalItem\<close> wraps it with the test
  for the missing global and with the \<^verbatim>\<open>catch\<close> clause. The test
  \<^verbatim>\<open>typeof localStorage === 'undefined'\<close> is the first statement of the function and
  stands before \<^verbatim>\<open>try\<close>: what reading the global raises there leaves the function
  uncaught. The result of \<^verbatim>\<open>getLocalItem\<close> is a sum as well, so that returning
  normally is a property to be proved of it.
\<close>

definition getLocalItem_try ::
  "(string \<Rightarrow> exn + jsval) \<Rightarrow> Storage \<Rightarrow> string \<Rightarrow> jsval \<Rightarrow> exn + jsval" where
  "getLocalItem_try JSON_parse store key def =
     (case store key of
        None \<Rightarrow> Inr def
      | Some item \<Rightarrow>
          if startsWith item ''{'' \<or> startsWith item ''[''
          then JSON_parse item
          else Inr (JStr item))"

definition getLocalItem ::
  "(string \<Rightarrow> exn + jsval) \<Rightarrow> Medium \<Rightarrow> string \<Rightarrow> jsval \<Rightarrow> exn + jsval" where
  "getLocalItem JSON_parse localStorage key def =
     (case localStorage of
        Blocked \<Rightarrow> Inl SecurityError
      | Missing \<Rightarrow> Inr def
      | Present store \<Rightarrow>
          (case getLocalItem_try JSON_parse store key def of
             Inl e \<Rightarrow> Inr def
           | Inr v \<Rightarrow> Inr v))"

subsection \<open>The state\<close>

text \<open>
  The fields of \<^verbatim>\<open>interface AppState\<close>, in its order. The ten persisted fields can be
  filled from storage and are run-time values; the others follow their annotations, with
  \<^verbatim>\<open>T | null\<close> as an option. The actions are functions of the state below, not fields.
\<close>

record Dimensions =
  width :: real
  height :: real

record AppState =
  language :: Language
  provider :: ProviderOption
  model :: ModelOption
  aspectRatio :: AspectRatioOption
  seed :: jsval
  steps :: jsval
  guidanceScale :: jsval
  autoTranslate :: jsval
  history :: jsval
  cloudHistory :: jsval
  currentView :: AppView
  prompt :: string
  isLoading :: bool
  isTranslating :: bool
  isOptimizing :: bool
  isUpscaling :: bool
  isDownloading :: bool
  isUploading :: bool
  currentImage :: "GeneratedImage option"
  imageDimensions :: "Dimensions option"
  isLiveMode :: bool
  error :: "string option"

subsection \<open>The setters\<close>

text \<open>
  \<^verbatim>\<open>set\<close> merges the given fields into the state and leaves the rest; a record update
  does the same. One definition per action, in the order of the source.
\<close>

definition setLanguage :: "Language \<Rightarrow> AppState \<Rightarrow> AppState" where
  "setLanguage language' s = s\<lparr>language := language'\<rparr>"

definition setProvider :: "ProviderOption \<Rightarrow> AppState \<Rightarrow> AppState" where
  "setProvider provider' s = s\<lparr>provider := provider'\<rparr>"

definition setModel :: "ModelOption \<Rightarrow> AppState \<Rightarrow> AppState" where
  "setModel model' s = s\<lparr>model := model'\<rparr>"

definition setAspectRatio :: "AspectRatioOption \<Rightarrow> AppState \<Rightarrow> AppState" where
  "setAspectRatio aspectRatio' s = s\<lparr>aspectRatio := aspectRatio'\<rparr>"

definition setSeed :: "jsval \<Rightarrow> AppState \<Rightarrow> AppState" where
  "setSeed seed' s = s\<lparr>seed := seed'\<rparr>"

definition setSteps :: "jsval \<Rightarrow> AppState \<Rightarrow> AppState" where
  "setSteps steps' s = s\<lparr>steps := steps'\<rparr>"

definition setGuidanceScale :: "jsval \<Rightarrow> AppState \<Rightarrow> AppState" where
  "setGuidanceScale guidanceScale' s = s\<lparr>guidanceScale := guidanceScale'\<rparr>"

definition setAutoTranslate :: "jsval \<Rightarrow> AppState \<Rightarrow> AppState" where
  "setAutoTranslate autoTranslate' s = s\<lparr>autoTranslate := autoTranslate'\<rparr>"

text \<open>
  Three setters take a value or a function of the previous value and tell them apart with
  \<^verbatim>\<open>typeof arg === 'function'\<close>; the argument is a tagged union.
\<close>

datatype 'a value_or_fn = Value 'a | Fn "'a \<Rightarrow> 'a"

definition setHistory :: "jsval value_or_fn \<Rightarrow> AppState \<Rightarrow> AppState" where
  "setHistory historyOrFn s =
     s\<lparr>history := (case historyOrFn of Fn f \<Rightarrow> f (history s) | Value v \<Rightarrow> v)\<rparr>"

definition setCloudHistory :: "jsval value_or_fn \<Rightarrow> AppState \<Rightarrow> AppState" where
  "setCloudHistory historyOrFn s =
     s\<lparr>cloudHistory := (case historyOrFn of Fn f \<Rightarrow> f (cloudHistory s) | Value v \<Rightarrow> v)\<rparr>"

definition setCurrentView :: "AppView \<Rightarrow> AppState \<Rightarrow> AppState" where
  "setCurrentView currentView' s = s\<lparr>currentView := currentView'\<rparr>"

definition setPrompt :: "string \<Rightarrow> AppState \<Rightarrow> AppState" where
  "setPrompt prompt' s = s\<lparr>prompt := prompt'\<rparr>"

definition setIsLoading :: "bool \<Rightarrow> AppState \<Rightarrow> AppState" where
  "setIsLoading isLoading' s = s\<lparr>isLoading := isLoading'\<rparr>"

definition setIsTranslating :: "bool \<Rightarrow> AppState \<Rightarrow> AppState" where
  "setIsTranslating isTranslating' s = s\<lparr>isTranslating := isTranslating'\<rparr>"

definition setIsOptimizing :: "bool \<Rightarrow> AppState \<Rightarrow> AppState" where
  "setIsOptimizing isOptimizing' s = s\<lparr>isOptimizing := isOptimizing'\<rparr>"

definition setIsUpscaling :: "bool \<Rightarrow> AppState \<Rightarrow> AppState" where
  "setIsUpscaling isUpscaling' s = s\<lparr>isUpscaling := isUpscaling'\<rparr>"

definition setIsDownloading :: "bool \<Rightarrow> AppState \<Rightarrow> AppState" where
  "setIsDownloading isDownloading' s = s\<lparr>isDownloading := isDownloading'\<rparr>"

definition setIsUploading :: "bool \<Rightarrow> AppState \<Rightarrow> AppState" where
  "setIsUploading isUploading' s = s\<lparr>isUploading := isUploading'\<rparr>"

definition setCurrentImage :: "GeneratedImage option value_or_fn \<Rightarrow> AppState \<Rightarrow> AppState" where
  "setCurrentImage imageOrFn s =
     s\<lparr>currentImage := (case imageOrFn of Fn f \<Rightarrow> f (currentImage s) | Value v \<Rightarrow> v)\<rparr>"

definition setImageDimensions :: "Dimensions option \<Rightarrow> AppState \<Rightarrow> AppState" where
  "setImageDimensions imageDimensions' s = s\<lparr>imageDimensions := imageDimensions'\<rparr>"

definition setIsLiveMode :: "bool \<Rightarrow> AppState \<Rightarrow> AppState" where
  "setIsLiveMode isLiveMode' s = s\<lparr>isLiveMode := isLiveMode'\<rparr>"

definition setError :: "string option \<Rightarrow> AppState \<Rightarrow> AppState" where
  "setError error' s = s\<lparr>error := error'\<rparr>"

subsection \<open>The compound action\<close>

definition resetSettings :: "AppState \<Rightarrow> AppState" where
  "resetSettings s =
     s\<lparr>prompt := '''',
       seed := JStr '''',
       aspectRatio := JStr ''1:1'',
       currentImage := None,
       isLiveMode := False,
       error := None,
       imageDimensions := None\<rparr>"

text \<open>A call of one of the actions, and the state it leaves.\<close>

datatype action =
    SetLanguage Language
  | SetProvider ProviderOption
  | SetModel ModelOption
  | SetAspectRatio AspectRatioOption
  | SetSeed jsval
  | SetSteps jsval
  | SetGuidanceScale jsval
  | SetAutoTranslate jsval
  | SetHistory "jsval value_or_fn"
  | SetCloudHistory "jsval value_or_fn"
  | SetCurrentView AppView
  | SetPrompt string
  | SetIsLoading bool
  | SetIsTranslating bool
  | SetIsOptimizing bool
  | SetIsUpscaling bool
  | SetIsDownloading bool
  | SetIsUploading bool
  | SetCurrentImage "GeneratedImage option value_or_fn"
  | SetImageDimensions "Dimensions option"
  | SetIsLiveMode bool
  | SetError "string option"
  | ResetSettings

fun call :: "action \<Rightarrow> AppState \<Rightarrow> AppState" where
  "call (SetLanguage v) s = setLanguage v s"
| "call (SetProvider v) s = setProvider v s"
| "call (SetModel v) s = setModel v s"
| "call (SetAspectRatio v) s = setAspectRatio v s"
| "call (SetSeed v) s = setSeed v s"
| "call (SetSteps v) s = setSteps v s"
| "call (SetGuidanceScale v) s = setGuidanceScale v s"
| "call (SetAutoTranslate v) s = setAutoTranslate v s"
| "call (SetHistory v) s = setHistory v s"
| "call (SetCloudHistory v) s = setCloudHistory v s"
| "call (SetCurrentView v) s = setCurrentView v s"
| "call (SetPrompt v) s = setPrompt v s"
| "call (SetIsLoading v) s = setIsLoading v s"
| "call (SetIsTranslating v) s = setIsTranslating v s"
| "call (SetIsOptimizing v) s = setIsOptimizing v s"
| "call (SetIsUpscaling v) s = setIsUpscaling v s"
| "call (SetIsDownloading v) s = setIsDownloading v s"
| "call (SetIsUploading v) s = setIsUploading v s"
| "call (SetCurrentImage v) s = setCurrentImage v s"
| "call (SetImageDimensions v) s = setImageDimensions v s"
| "call (SetIsLiveMode v) s = setIsLiveMode v s"
| "call (SetError v) s = setError v s"
| "call ResetSettings s = resetSettings s"

subsection \<open>The persisted projection\<close>

text \<open>
  \<^verbatim>\<open>partialize\<close> builds an object literal of ten properties; the object is the list of
  its properties, name and value, in the order they are written.
\<close>

definition storage_name :: string where
  "storage_name = ''peinture_storage_v1''"

definition partialize :: "AppState \<Rightarrow> (string \<times> jsval) list" where
  "partialize state =
     [(''language'', language state),
      (''provider'', provider state),
      (''model'', model state),
      (''aspectRatio'', aspectRatio state),
      (''seed'', seed state),
      (''steps'', steps state),
      (''guidanceScale'', guidanceScale state),
      (''autoTranslate'', autoTranslate state),
      (''history'', history state),
      (''cloudHistory'', cloudHistory state)]"

text \<open>The names of the fields that the interface marks as ephemeral.\<close>

definition ephemeral_fields :: "string list" where
  "ephemeral_fields =
     [''currentView'', ''prompt'', ''isLoading'', ''isTranslating'', ''isOptimizing'',
      ''isUpscaling'', ''isDownloading'', ''isUploading'', ''currentImage'',
      ''imageDimensions'', ''isLiveMode'', ''error'']"

subsection \<open>The initial state\<close>

text \<open>
  The initializer runs in an environment: the platform's \<^verbatim>\<open>JSON.parse\<close>, the global
  \<^verbatim>\<open>localStorage\<close>, the string \<^verbatim>\<open>navigator.language\<close>, and the constant
  \<^verbatim>\<open>HF_MODEL_OPTIONS\<close> of \<^verbatim>\<open>../constants\<close>, of which the source reads the property
  \<^verbatim>\<open>value\<close> of the first entry. Reading a property of \<^verbatim>\<open>undefined\<close>, the first entry
  of an empty array, raises a TypeError.
\<close>

record ModelOptionEntry =
  value' :: string

record Env =
  JSON_parse :: "string \<Rightarrow> exn + jsval"
  localStorage :: Medium
  navigator_language :: string
  HF_MODEL_OPTIONS :: "ModelOptionEntry list"

definition bind_exn :: "exn + 'a \<Rightarrow> ('a \<Rightarrow> exn + 'b) \<Rightarrow> exn + 'b" where
  "bind_exn r k = (case r of Inl e \<Rightarrow> Inl e | Inr v \<Rightarrow> k v)"

definition initialState :: "Env \<Rightarrow> exn + AppState" where
  "initialState env =
     bind_exn (getLocalItem (JSON_parse env) (localStorage env) ''app_language''
        (let browserLang = toLowerCase (navigator_language env)
         in JStr (if startsWith browserLang ''zh'' then ''zh'' else ''en'')))
     (\<lambda>language'.
     bind_exn (getLocalItem (JSON_parse env) (localStorage env) ''app_provider''
        (JStr ''huggingface''))
     (\<lambda>provider'.
     bind_exn (case HF_MODEL_OPTIONS env of
                 [] \<Rightarrow> Inl TypeError
               | first # _ \<Rightarrow> Inr (JStr (value' first)))
     (\<lambda>model_def.
     bind_exn (getLocalItem (JSON_parse env) (localStorage env) ''app_model'' model_def)
     (\<lambda>model'.
     bind_exn (getLocalItem (JSON_parse env) (localStorage env) ''app_aspect_ratio''
        (JStr ''1:1''))
     (\<lambda>aspectRatio'.
     bind_exn (getLocalItem (JSON_parse env) (localStorage env) ''ai_image_gen_history''
        (JArr []))
     (\<lambda>history'.
     bind_exn (getLocalItem (JSON_parse env) (localStorage env) ''ai_cloud_history''
        (JArr []))
     (\<lambda>cloudHistory'.
     Inr \<lparr>language = language',
          provider = provider',
          model = model',
          aspectRatio = aspectRatio',
          seed = JStr '''',
          steps = JNum 9,
          guidanceScale = JNum 3.5,
          autoTranslate = JBool False,
          history = history',
          cloudHistory = cloudHistory',
          currentView = ''creation'',
          prompt = '''',
          isLoading = False,
          isTranslating = False,
          isOptimizing = False,
          isUpscaling = False,
          isDownloading = False,
          isUploading = False,
          currentImage = None,
          imageDimensions = None,
          isLiveMode = False,
          error = None\<rparr>)))))))"

subsection \<open>Rehydration\<close>

text \<open>
  Modelled from the spec: the persistence adapter, which is the \<^verbatim>\<open>persist\<close> middleware
  of the library \<^verbatim>\<open>zustand\<close> and not part of the source file. The spec (4.2, 7 and 9)
  says: on initialization the adapter attempts to read a snapshot stored under the fixed
  name; a field found in the snapshot initializes the state's field, a field absent from
  it keeps the value of the initializer; a missing medium, a missing entry and a
  malformed entry all leave the initializer's state. How the stored text is decoded into
  the fields of the snapshot is the adapter's own affair and a parameter here,
  \<open>deserialize\<close>, which answers \<open>None\<close> on a text it cannot use.
\<close>

definition snapshot_field :: "(string \<times> jsval) list \<Rightarrow> string \<Rightarrow> jsval \<Rightarrow> jsval" where
  "snapshot_field snapshot name current =
     (case map_of snapshot name of None \<Rightarrow> current | Some v \<Rightarrow> v)"

definition rehydrate :: "(string \<times> jsval) list \<Rightarrow> AppState \<Rightarrow> AppState" where
  "rehydrate snapshot s =
     s\<lparr>language := snapshot_field snapshot ''language'' (language s),
       provider := snapshot_field snapshot ''provider'' (provider s),
       model := snapshot_field snapshot ''model'' (model s),
       aspectRatio := snapshot_field snapshot ''aspectRatio'' (aspectRatio s),
       seed := snapshot_field snapshot ''seed'' (seed s),
       steps := snapshot_field snapshot ''steps'' (steps s),
       guidanceScale := snapshot_field snapshot ''guidanceScale'' (guidanceScale s),
       autoTranslate := snapshot_field snapshot ''autoTranslate'' (autoTranslate s),
       history := snapshot_field snapshot ''history'' (history s),
       cloudHistory := snapshot_field snapshot ''cloudHistory'' (cloudHistory s)\<rparr>"

definition readSnapshot ::
  "(string \<Rightarrow> (string \<times> jsval) list option) \<Rightarrow> Env \<Rightarrow> (string \<times> jsval) list option" where
  "readSnapshot deserialize env =
     (case localStorage env of
        Missing \<Rightarrow> None
      | Blocked \<Rightarrow> None
      | Present store \<Rightarrow>
          (case store storage_name of
             None \<Rightarrow> None
           | Some raw \<Rightarrow> deserialize raw))"

text \<open>
  The store after construction: the initializer of the source runs first, then the
  adapter merges the snapshot it finds.
\<close>

definition createStore ::
  "(string \<Rightarrow> (string \<times> jsval) list option) \<Rightarrow> Env \<Rightarrow> exn + AppState" where
  "createStore deserialize env =
     bind_exn (initialState env)
       (\<lambda>s0. Inr (case readSnapshot deserialize env of
                    None \<Rightarrow> s0
                  | Some snapshot \<Rightarrow> rehydrate snapshot s0))"

subsection \<open>Specified behaviour\<close>

text \<open>
  Predicates and lists written from the specification, to be compared with what the
  source computes: a stored string that begins with an opening brace or bracket; a locale string
  that starts with \<^verbatim>\<open>zh\<close> in either case of each letter; the names of the persisted
  fields, and what it is for an object to be the projection of a state onto them; the
  six old storage keys and the six fields they seed.
\<close>

definition begins_structured :: "string \<Rightarrow> bool" where
  "begins_structured item =
     (case item of c # _ \<Rightarrow> c = CHR ''{'' \<or> c = CHR ''['' | [] \<Rightarrow> False)"

definition zh_prefix_ci :: "string \<Rightarrow> bool" where
  "zh_prefix_ci l =
     (case l of
        c1 # c2 # _ \<Rightarrow> (c1 = CHR ''z'' \<or> c1 = CHR ''Z'') \<and> (c2 = CHR ''h'' \<or> c2 = CHR ''H'')
      | _ \<Rightarrow> False)"

definition persisted_fields :: "string list" where
  "persisted_fields =
     [''language'', ''provider'', ''model'', ''aspectRatio'', ''seed'', ''steps'',
      ''guidanceScale'', ''autoTranslate'', ''history'', ''cloudHistory'']"

definition projection_of :: "AppState \<Rightarrow> (string \<times> jsval) list \<Rightarrow> bool" where
  "projection_of s snapshot \<longleftrightarrow>
     map fst snapshot = persisted_fields \<and>
     map_of snapshot ''language'' = Some (language s) \<and>
     map_of snapshot ''provider'' = Some (provider s) \<and>
     map_of snapshot ''model'' = Some (model s) \<and>
     map_of snapshot ''aspectRatio'' = Some (aspectRatio s) \<and>
     map_of snapshot ''seed'' = Some (seed s) \<and>
     map_of snapshot ''steps'' = Some (steps s) \<and>
     map_of snapshot ''guidanceScale'' = Some (guidanceScale s) \<and>
     map_of snapshot ''autoTranslate'' = Some (autoTranslate s) \<and>
     map_of snapshot ''history'' = Some (history s) \<and>
     map_of snapshot ''cloudHistory'' = Some (cloudHistory s) \<and>
     list_all (\<lambda>name. map_of snapshot name = None) ephemeral_fields"

definition legacy_keys :: "string list" where
  "legacy_keys =
     [''app_language'', ''app_provider'', ''app_model'', ''app_aspect_ratio'',
      ''ai_image_gen_history'', ''ai_cloud_history'']"


subsection \<open>Concrete inputs\<close>

text \<open>
  The inputs at which the theorems below are instantiated. \<open>JSON_parse_sample\<close> is
  \<^verbatim>\<open>JSON.parse\<close> on the strings handed to it there: the empty array, the empty object,
  and texts that are not JSON, on which it raises.
\<close>

definition JSON_parse_sample :: "string \<Rightarrow> exn + jsval" where
  "JSON_parse_sample text =
     (if text = ''[]'' then Inr (JArr [])
      else if text = ''{}'' then Inr (JObj [])
      else Inl SyntaxError)"

definition sample_state :: AppState where
  "sample_state =
     \<lparr>language = JStr ''zh'',
      provider = JStr ''gitee'',
      model = JStr ''model-b'',
      aspectRatio = JStr ''16:9'',
      seed = JStr ''42'',
      steps = JNum 20,
      guidanceScale = JNum 7,
      autoTranslate = JBool True,
      history = JArr [JObj [(''id'', JStr ''a'')]],
      cloudHistory = JArr [JObj [(''id'', JStr ''c'')]],
      currentView = ''gallery'',
      prompt = ''a cat'',
      isLoading = True,
      isTranslating = False,
      isOptimizing = True,
      isUpscaling = False,
      isDownloading = True,
      isUploading = False,
      currentImage = Some (JObj [(''id'', JStr ''a'')]),
      imageDimensions = Some \<lparr>width = 1024, height = 768\<rparr>,
      isLiveMode = True,
      error = Some ''failed''\<rparr>"

definition sample_env :: "Medium \<Rightarrow> Env" where
  "sample_env medium =
     \<lparr>JSON_parse = JSON_parse_sample,
      localStorage = medium,
      navigator_language = ''ZH-cn'',
      HF_MODEL_OPTIONS = [\<lparr>value' = ''model-a''\<rparr>, \<lparr>value' = ''model-b''\<rparr>]\<rparr>"





section \<open>Properties\<close>

subsection \<open>Auxiliary facts\<close>

lemma startsWith_structured:
  "(startsWith item ''{'' \<or> startsWith item ''['') = begins_structured item"
  by (cases item) (auto simp add: startsWith_def begins_structured_def)

lemma getLocalItem_returns:
  "medium \<noteq> Blocked \<Longrightarrow> \<exists>v. getLocalItem parse medium key def = Inr v"
  by (cases medium) (simp_all add: getLocalItem_def split: sum.split)

subsection \<open>The compound action\<close>

text \<open>
  C1. After \<^verbatim>\<open>resetSettings\<close>, on any state, \<^verbatim>\<open>prompt\<close> and \<^verbatim>\<open>seed\<close> are the empty
  string, \<^verbatim>\<open>aspectRatio\<close> is \<^verbatim>\<open>'1:1'\<close>, \<^verbatim>\<open>currentImage\<close> and \<^verbatim>\<open>error\<close> are null,
  \<^verbatim>\<open>isLiveMode\<close> is false, and \<^verbatim>\<open>provider\<close>, \<^verbatim>\<open>model\<close>, \<^verbatim>\<open>language\<close>, \<^verbatim>\<open>steps\<close>,
  \<^verbatim>\<open>guidanceScale\<close>, \<^verbatim>\<open>autoTranslate\<close>, \<^verbatim>\<open>history\<close> and \<^verbatim>\<open>cloudHistory\<close> keep the
  values they had before the call.
\<close>

theorem resetSettings_fields:
  "prompt (resetSettings s) = '''' \<and>
   seed (resetSettings s) = JStr '''' \<and>
   aspectRatio (resetSettings s) = JStr ''1:1'' \<and>
   currentImage (resetSettings s) = None \<and>
   error (resetSettings s) = None \<and>
   isLiveMode (resetSettings s) = False \<and>
   provider (resetSettings s) = provider s \<and>
   model (resetSettings s) = model s \<and>
   language (resetSettings s) = language s \<and>
   steps (resetSettings s) = steps s \<and>
   guidanceScale (resetSettings s) = guidanceScale s \<and>
   autoTranslate (resetSettings s) = autoTranslate s \<and>
   history (resetSettings s) = history s \<and>
   cloudHistory (resetSettings s) = cloudHistory s"
  by (simp add: resetSettings_def)

text \<open>
  C2 says that \<^verbatim>\<open>resetSettings\<close> changes nothing but \<^verbatim>\<open>prompt\<close>, \<^verbatim>\<open>seed\<close>,
  \<^verbatim>\<open>aspectRatio\<close>, \<^verbatim>\<open>currentImage\<close>, \<^verbatim>\<open>isLiveMode\<close> and \<^verbatim>\<open>error\<close>, and names
  \<^verbatim>\<open>imageDimensions\<close> among the fields it leaves alone. The object that the action
  hands to \<^verbatim>\<open>set\<close> has a seventh property, \<^verbatim>\<open>imageDimensions: null\<close>: on a state
  that holds dimensions the field changes.
\<close>

theorem resetSettings_imageDimensions_counterexample:
  "imageDimensions sample_state = Some \<lparr>width = 1024, height = 768\<rparr> \<and>
   imageDimensions (resetSettings sample_state) = None \<and>
   imageDimensions (resetSettings sample_state) \<noteq> imageDimensions sample_state"
  by (simp add: resetSettings_def sample_state_def)

text \<open>
  C2, amended. For every state, \<^verbatim>\<open>resetSettings\<close> modifies only the seven fields
  \<^verbatim>\<open>prompt\<close>, \<^verbatim>\<open>seed\<close>, \<^verbatim>\<open>aspectRatio\<close>, \<^verbatim>\<open>currentImage\<close>, \<^verbatim>\<open>isLiveMode\<close>,
  \<^verbatim>\<open>error\<close> and \<^verbatim>\<open>imageDimensions\<close>, the last of which becomes null; every other
  field, \<^verbatim>\<open>provider\<close>, \<^verbatim>\<open>model\<close>, \<^verbatim>\<open>currentView\<close> and the busy flags among them, is
  unchanged. The last conjunct says it once more for the whole record: putting the seven
  old values back gives the old state.
\<close>

theorem resetSettings_frame:
  "imageDimensions (resetSettings s) = None \<and>
   language (resetSettings s) = language s \<and>
   provider (resetSettings s) = provider s \<and>
   model (resetSettings s) = model s \<and>
   steps (resetSettings s) = steps s \<and>
   guidanceScale (resetSettings s) = guidanceScale s \<and>
   autoTranslate (resetSettings s) = autoTranslate s \<and>
   history (resetSettings s) = history s \<and>
   cloudHistory (resetSettings s) = cloudHistory s \<and>
   currentView (resetSettings s) = currentView s \<and>
   isLoading (resetSettings s) = isLoading s \<and>
   isTranslating (resetSettings s) = isTranslating s \<and>
   isOptimizing (resetSettings s) = isOptimizing s \<and>
   isUpscaling (resetSettings s) = isUpscaling s \<and>
   isDownloading (resetSettings s) = isDownloading s \<and>
   isUploading (resetSettings s) = isUploading s \<and>
   (resetSettings s)\<lparr>prompt := prompt s, seed := seed s, aspectRatio := aspectRatio s,
      currentImage := currentImage s, isLiveMode := isLiveMode s, error := error s,
      imageDimensions := imageDimensions s\<rparr> = s"
  by (simp add: resetSettings_def)

subsection \<open>The migration helper\<close>

text \<open>
  C4. For a key present in storage: when the stored string begins with an opening brace
  or bracket and \<^verbatim>\<open>JSON.parse\<close> accepts it, \<^verbatim>\<open>getLocalItem\<close> returns the parsed
  value; when the stored string begins with neither, it returns the stored string itself.
\<close>

theorem getLocalItem_present:
  assumes "store key = Some item"
  shows "(begins_structured item \<and> parse item = Inr v \<longrightarrow>
            getLocalItem parse (Present store) key def = Inr v) \<and>
         (\<not> begins_structured item \<longrightarrow>
            getLocalItem parse (Present store) key def = Inr (JStr item))"
  using assms
  by (simp add: getLocalItem_def getLocalItem_try_def startsWith_structured)

theorem getLocalItem_present_witness:
  "getLocalItem JSON_parse_sample (Present [''ai_image_gen_history'' \<mapsto> ''[]''])
     ''ai_image_gen_history'' (JArr [JNull]) = Inr (JArr []) \<and>
   getLocalItem JSON_parse_sample (Present [''app_language'' \<mapsto> ''zh''])
     ''app_language'' (JStr ''en'') = Inr (JStr ''zh'')"
  using
    getLocalItem_present [where store = "[''ai_image_gen_history'' \<mapsto> ''[]'']"
      and key = "''ai_image_gen_history''" and item = "''[]''" and parse = JSON_parse_sample
      and v = "JArr []" and def = "JArr [JNull]"]
    getLocalItem_present [where store = "[''app_language'' \<mapsto> ''zh'']"
      and key = "''app_language''" and item = "''zh''" and parse = JSON_parse_sample
      and def = "JStr ''en''"]
  by (simp add: begins_structured_def JSON_parse_sample_def)

text \<open>
  C5 says that \<^verbatim>\<open>getLocalItem\<close> returns normally on every input and never lets an
  exception out. The function guards against a missing global and wraps its body in
  \<^verbatim>\<open>try\<close>, but the guard itself reads the global outside the \<^verbatim>\<open>try\<close>: with a
  blocked medium the call raises a SecurityError, for every parser, key and default.
\<close>

theorem getLocalItem_blocked_throws:
  "getLocalItem parse Blocked key def = Inl SecurityError"
  by (simp add: getLocalItem_def)

text \<open>
  What does hold: with a medium that is not blocked the call returns, which is
  \<open>getLocalItem_returns\<close> above, and a stored string that begins with an opening brace
  or bracket on which \<^verbatim>\<open>JSON.parse\<close> raises yields the default.
\<close>

lemma getLocalItem_malformed_default:
  "store key = Some item \<Longrightarrow> begins_structured item \<Longrightarrow> parse item = Inl e \<Longrightarrow>
     getLocalItem parse (Present store) key def = Inr def"
  by (simp add: getLocalItem_def getLocalItem_try_def startsWith_structured)

text \<open>
  C6 says that an absent key, and also an unavailable medium, yield exactly the
  default. A blocked medium is unavailable, and there the call raises instead, here for
  the key \<^verbatim>\<open>app_provider\<close> with the default \<^verbatim>\<open>'huggingface'\<close>. It is the defect of C5:
  the test of the global stands outside the \<^verbatim>\<open>try\<close>.
\<close>

theorem getLocalItem_blocked_no_default:
  "getLocalItem JSON_parse_sample Blocked ''app_provider'' (JStr ''huggingface'')
     = Inl SecurityError \<and>
   getLocalItem JSON_parse_sample Blocked ''app_provider'' (JStr ''huggingface'')
     \<noteq> Inr (JStr ''huggingface'')"
  by (simp add: getLocalItem_def)

text \<open>
  What does hold: a missing global and a key absent from a present store both yield the
  default.
\<close>

lemma getLocalItem_missing_default:
  "getLocalItem parse Missing key def = Inr def"
  by (simp add: getLocalItem_def)

lemma getLocalItem_absent_default:
  "store key = None \<Longrightarrow> getLocalItem parse (Present store) key def = Inr def"
  by (simp add: getLocalItem_def getLocalItem_try_def)

text \<open>
  C10. A key that is present with the empty string as its value yields the empty string,
  not the default: the test is \<^verbatim>\<open>item === null\<close>, and the empty string begins with
  neither an opening brace nor a bracket.
\<close>

theorem getLocalItem_empty_string:
  assumes "store key = Some ''''"
  shows "getLocalItem parse (Present store) key def = Inr (JStr '''')"
  using assms by (simp add: getLocalItem_def getLocalItem_try_def startsWith_def)

theorem getLocalItem_empty_string_witness:
  "getLocalItem JSON_parse_sample (Present [''app_model'' \<mapsto> '''']) ''app_model''
     (JStr ''model-a'') = Inr (JStr '''') \<and>
   JStr '''' \<noteq> JStr ''model-a''"
  using getLocalItem_empty_string [where store = "[''app_model'' \<mapsto> '''']"
      and key = "''app_model''" and parse = JSON_parse_sample and def = "JStr ''model-a''"]
  by simp

subsection \<open>Setters that take a value or a function\<close>

text \<open>
  C7. \<^verbatim>\<open>setHistory\<close> with a function \<open>f\<close> leaves a state whose \<^verbatim>\<open>history\<close> is \<open>f\<close> of
  the previous history, and with a value \<open>a\<close> a state whose \<^verbatim>\<open>history\<close> is \<open>a\<close>; in
  both cases the other fields are unchanged, which is stated as: putting the old history
  back gives the old state. The same holds of \<^verbatim>\<open>setCloudHistory\<close> over \<^verbatim>\<open>cloudHistory\<close>
  and of \<^verbatim>\<open>setCurrentImage\<close> over \<^verbatim>\<open>currentImage\<close>.
\<close>

theorem setters_value_or_fn:
  "history (setHistory (Fn f) s) = f (history s) \<and>
   (setHistory (Fn f) s)\<lparr>history := history s\<rparr> = s \<and>
   history (setHistory (Value a) s) = a \<and>
   (setHistory (Value a) s)\<lparr>history := history s\<rparr> = s \<and>
   cloudHistory (setCloudHistory (Fn f) s) = f (cloudHistory s) \<and>
   (setCloudHistory (Fn f) s)\<lparr>cloudHistory := cloudHistory s\<rparr> = s \<and>
   cloudHistory (setCloudHistory (Value a) s) = a \<and>
   (setCloudHistory (Value a) s)\<lparr>cloudHistory := cloudHistory s\<rparr> = s \<and>
   currentImage (setCurrentImage (Fn g) s) = g (currentImage s) \<and>
   (setCurrentImage (Fn g) s)\<lparr>currentImage := currentImage s\<rparr> = s \<and>
   currentImage (setCurrentImage (Value i) s) = i \<and>
   (setCurrentImage (Value i) s)\<lparr>currentImage := currentImage s\<rparr> = s"
  by (simp add: setHistory_def setCloudHistory_def setCurrentImage_def)

subsection \<open>The persisted projection\<close>

lemma partialize_projection_of: "projection_of s (partialize s)"
  by (simp add: projection_of_def partialize_def persisted_fields_def ephemeral_fields_def)

text \<open>
  C3. For every state, and so for every reachable one, the object that \<^verbatim>\<open>partialize\<close>
  builds has exactly the ten persisted fields, each with the value of the state's field,
  and none of the ephemeral fields; the same holds of the state that any call of an
  action leaves.
\<close>

theorem partialize_projection:
  "projection_of s (partialize s) \<and> projection_of (call a s) (partialize (call a s))"
  by (simp add: partialize_projection_of)

theorem partialize_projection_witness:
  "map_of (partialize (call (SetLanguage (JStr ''en'')) sample_state)) ''language''
     = Some (JStr ''en'') \<and>
   map_of (partialize (call (SetLanguage (JStr ''en'')) sample_state)) ''seed''
     = Some (JStr ''42'') \<and>
   map_of (partialize (call (SetLanguage (JStr ''en'')) sample_state)) ''prompt'' = None"
  using partialize_projection [of sample_state "SetLanguage (JStr ''en'')"]
  by (simp add: projection_of_def ephemeral_fields_def setLanguage_def sample_state_def)

subsection \<open>The initial state\<close>

text \<open>
  The source lowers the locale and tests for the prefix \<^verbatim>\<open>zh\<close>; that is the
  specified test, a \<^verbatim>\<open>z\<close> and an \<^verbatim>\<open>h\<close> in either case at the front.
\<close>

lemma of_char_toLowerCase_char:
  "(of_char (toLowerCase_char c) :: nat) =
     (if 65 \<le> (of_char c :: nat) \<and> (of_char c :: nat) \<le> 90 then of_char c + 32 else of_char c)"
  by (simp add: toLowerCase_char_def Let_def)

lemma char_eq_code: "c = d \<longleftrightarrow> (of_char c :: nat) = of_char d"
  by simp

lemma toLowerCase_char_z:
  "toLowerCase_char c = CHR ''z'' \<longleftrightarrow> c = CHR ''z'' \<or> c = CHR ''Z''"
proof -
  have "toLowerCase_char c = CHR ''z'' \<longleftrightarrow> (of_char (toLowerCase_char c) :: nat) = 122"
    by (subst char_eq_code) simp
  also have "\<dots> \<longleftrightarrow> (of_char c :: nat) = 122 \<or> (of_char c :: nat) = 90"
    unfolding of_char_toLowerCase_char by auto
  also have "\<dots> \<longleftrightarrow> c = CHR ''z'' \<or> c = CHR ''Z''"
  proof -
    have "c = CHR ''z'' \<longleftrightarrow> (of_char c :: nat) = 122" by (subst char_eq_code) simp
    moreover have "c = CHR ''Z'' \<longleftrightarrow> (of_char c :: nat) = 90" by (subst char_eq_code) simp
    ultimately show ?thesis by simp
  qed
  finally show ?thesis .
qed

lemma toLowerCase_char_h:
  "toLowerCase_char c = CHR ''h'' \<longleftrightarrow> c = CHR ''h'' \<or> c = CHR ''H''"
proof -
  have "toLowerCase_char c = CHR ''h'' \<longleftrightarrow> (of_char (toLowerCase_char c) :: nat) = 104"
    by (subst char_eq_code) simp
  also have "\<dots> \<longleftrightarrow> (of_char c :: nat) = 104 \<or> (of_char c :: nat) = 72"
    unfolding of_char_toLowerCase_char by auto
  also have "\<dots> \<longleftrightarrow> c = CHR ''h'' \<or> c = CHR ''H''"
  proof -
    have "c = CHR ''h'' \<longleftrightarrow> (of_char c :: nat) = 104" by (subst char_eq_code) simp
    moreover have "c = CHR ''H'' \<longleftrightarrow> (of_char c :: nat) = 72" by (subst char_eq_code) simp
    ultimately show ?thesis by simp
  qed
  finally show ?thesis .
qed

lemma startsWith_zh: "startsWith (toLowerCase l) ''zh'' = zh_prefix_ci l"
proof (cases l)
  case Nil
  then show ?thesis by (simp add: startsWith_def toLowerCase_def zh_prefix_ci_def)
next
  case (Cons c1 l')
  then show ?thesis
    by (cases l')
      (auto simp add: startsWith_def toLowerCase_def zh_prefix_ci_def
        toLowerCase_char_z toLowerCase_char_h)
qed

text \<open>
  With a medium that is not blocked every call of \<^verbatim>\<open>getLocalItem\<close> returns, so the
  initializer fails only on an empty \<^verbatim>\<open>HF_MODEL_OPTIONS\<close>, and otherwise builds the
  record below. With a blocked medium its first call raises.
\<close>

lemma bind_getLocalItem:
  "medium \<noteq> Blocked \<Longrightarrow>
     bind_exn (getLocalItem p medium key def) k = k (projr (getLocalItem p medium key def))"
  using getLocalItem_returns [of medium p key def] by (auto simp add: bind_exn_def)

lemma initialState_Blocked:
  "localStorage env = Blocked \<Longrightarrow> initialState env = Inl SecurityError"
  by (simp add: initialState_def getLocalItem_def bind_exn_def)


lemma initialState_Cons:
  assumes "localStorage env \<noteq> Blocked" and "HF_MODEL_OPTIONS env = first # others"
  shows "initialState env =
     Inr \<lparr>language = projr (getLocalItem (JSON_parse env) (localStorage env) ''app_language''
            (JStr (if zh_prefix_ci (navigator_language env) then ''zh'' else ''en''))),
          provider = projr (getLocalItem (JSON_parse env) (localStorage env) ''app_provider''
            (JStr ''huggingface'')),
          model = projr (getLocalItem (JSON_parse env) (localStorage env) ''app_model''
            (JStr (value' first))),
          aspectRatio = projr (getLocalItem (JSON_parse env) (localStorage env)
            ''app_aspect_ratio'' (JStr ''1:1'')),
          seed = JStr '''',
          steps = JNum 9,
          guidanceScale = JNum 3.5,
          autoTranslate = JBool False,
          history = projr (getLocalItem (JSON_parse env) (localStorage env)
            ''ai_image_gen_history'' (JArr [])),
          cloudHistory = projr (getLocalItem (JSON_parse env) (localStorage env)
            ''ai_cloud_history'' (JArr [])),
          currentView = ''creation'',
          prompt = '''',
          isLoading = False,
          isTranslating = False,
          isOptimizing = False,
          isUpscaling = False,
          isDownloading = False,
          isUploading = False,
          currentImage = None,
          imageDimensions = None,
          isLiveMode = False,
          error = None\<rparr>"
  using assms
  by (simp add: initialState_def bind_getLocalItem Let_def startsWith_zh)
    (simp add: bind_exn_def)

text \<open>
  C8. With a storage that holds none of the six old keys, and a configured list of model
  options with a first entry, the initializer returns a state whose \<^verbatim>\<open>language\<close> is
  \<^verbatim>\<open>'zh'\<close> when the locale starts with \<^verbatim>\<open>zh\<close> in any case and \<^verbatim>\<open>'en'\<close> otherwise,
  whose \<^verbatim>\<open>provider\<close> is \<^verbatim>\<open>'huggingface'\<close>, whose \<^verbatim>\<open>model\<close> is the \<^verbatim>\<open>value\<close> of the
  first option, whose \<^verbatim>\<open>aspectRatio\<close> is \<^verbatim>\<open>'1:1'\<close>, \<^verbatim>\<open>steps\<close> 9, \<^verbatim>\<open>guidanceScale\<close>
  3.5, \<^verbatim>\<open>seed\<close> the empty string, \<^verbatim>\<open>autoTranslate\<close> false, and whose two histories are
  empty arrays. The initializer never reads the unified key, so its absence is not among
  the hypotheses.
\<close>

theorem initialState_defaults:
  assumes "localStorage env = Present store"
    and "list_all (\<lambda>key. store key = None) legacy_keys"
    and "HF_MODEL_OPTIONS env = first # others"
  shows "\<exists>s. initialState env = Inr s \<and>
     language s = JStr (if zh_prefix_ci (navigator_language env) then ''zh'' else ''en'') \<and>
     provider s = JStr ''huggingface'' \<and>
     model s = JStr (value' first) \<and>
     aspectRatio s = JStr ''1:1'' \<and>
     steps s = JNum 9 \<and>
     guidanceScale s = JNum 3.5 \<and>
     seed s = JStr '''' \<and>
     autoTranslate s = JBool False \<and>
     history s = JArr [] \<and>
     cloudHistory s = JArr []"
  using assms
  by (simp add: initialState_Cons legacy_keys_def getLocalItem_absent_default)

theorem initialState_defaults_witness:
  "\<exists>s. initialState (sample_env (Present Map.empty)) = Inr s \<and>
     language s = JStr ''zh'' \<and>
     provider s = JStr ''huggingface'' \<and>
     model s = JStr ''model-a'' \<and>
     aspectRatio s = JStr ''1:1'' \<and>
     steps s = JNum 9 \<and>
     guidanceScale s = JNum 3.5 \<and>
     seed s = JStr '''' \<and>
     autoTranslate s = JBool False \<and>
     history s = JArr [] \<and>
     cloudHistory s = JArr []"
  using initialState_defaults [where env = "sample_env (Present Map.empty)" and store = Map.empty
      and first = "\<lparr>value' = ''model-a''\<rparr>" and others = "[\<lparr>value' = ''model-b''\<rparr>]"]
  by (simp add: sample_env_def legacy_keys_def zh_prefix_ci_def)

subsection \<open>Construction and the old keys\<close>

text \<open>
  With no snapshot to merge, the constructed store is the initializer's state.
\<close>

lemma createStore_without_snapshot:
  "readSnapshot deserialize env = None \<Longrightarrow> createStore deserialize env = initialState env"
  by (cases "initialState env") (simp_all add: createStore_def bind_exn_def)









end
